theory Spec2Isabelle
  imports Complex_Main
begin

section \<open>Python numbers\<close>

text \<open>
  The metric values that \<^verbatim>\<open>sensor.py\<close> receives from the coordinator are Python numbers:
  \<^verbatim>\<open>int\<close> (unbounded) or \<^verbatim>\<open>float\<close> (an IEEE 754 binary64). A finite float is represented by
  its exact rational value; the two zeros are identified (they compare equal in Python).
  Every float operation rounds the exact result to the nearest binary64, ties to even.
\<close>

text \<open>Rounding a rational to the nearest integer, ties to the even one.\<close>

definition rhe :: "rat \<Rightarrow> int" where
  "rhe q = (let f = \<lfloor>q\<rfloor>; d = q - of_int f
            in if d < 1 / 2 then f else if 1 / 2 < d then f + 1
               else if even f then f else f + 1)"

definition pow2 :: "int \<Rightarrow> rat" where
  "pow2 e = (if 0 \<le> e then 2 ^ nat e else 1 / 2 ^ nat (- e))"

text \<open>The number of binary digits of a positive integer.\<close>

function bits :: "int \<Rightarrow> int" where
  "bits n = (if n \<le> 0 then 0 else 1 + bits (n div 2))"
  by pat_completeness auto
termination
  by (relation "measure nat") auto

declare bits.simps [simp del]

text \<open>
  The binary exponent \<open>\<lfloor>log\<^sub>2 q\<rfloor>\<close> of a positive rational \<open>a / b\<close>: the difference
  \<open>d\<close> of the bit lengths of \<open>a\<close> and \<open>b\<close> satisfies \<open>2 ^ (d - 1) < a / b < 2 ^ (d + 1)\<close>.
\<close>

definition ilog2 :: "rat \<Rightarrow> int" where
  "ilog2 q = (case quotient_of q of (a, b) \<Rightarrow>
     (let d = bits a - bits b in if pow2 d \<le> q then d else d - 1))"

text \<open>
  Rounding to binary64 with an unbounded exponent range above: 53 significant bits, the
  last bit never below \<open>2 ^ - 1074\<close> (the subnormal range), ties to even.
\<close>

definition fl_round :: "rat \<Rightarrow> rat" where
  "fl_round q = (if q = 0 then 0
     else (let e = max (ilog2 \<bar>q\<bar> - 52) (- 1074)
           in of_int (rhe (q / pow2 e)) * pow2 e))"

datatype pyfloat = Finite rat | PosInf | NegInf | NaN

text \<open>
  The binary64 nearest to a rational: what a float literal denotes and what an arithmetic
  operation returns for the exact result \<open>q\<close>. A rounded magnitude of \<open>2 ^ 1024\<close> or more
  overflows to an infinity.
\<close>

definition to_double :: "rat \<Rightarrow> pyfloat" where
  "to_double q = (let r = fl_round q
     in if r = 0 then Finite 0
        else if 1024 \<le> ilog2 \<bar>r\<bar> then (if 0 < r then PosInf else NegInf)
        else Finite r)"

fun float_sgn :: "pyfloat \<Rightarrow> int" where
  "float_sgn (Finite q) = (if q = 0 then 0 else if 0 < q then 1 else - 1)"
| "float_sgn PosInf = 1"
| "float_sgn NegInf = - 1"
| "float_sgn NaN = 0"

text \<open>Float multiplication \<^verbatim>\<open>x * y\<close>.\<close>

fun float_mul :: "pyfloat \<Rightarrow> pyfloat \<Rightarrow> pyfloat" where
  "float_mul (Finite a) (Finite b) = to_double (a * b)"
| "float_mul NaN g = NaN"
| "float_mul f NaN = NaN"
| "float_mul f g =
     (let s = float_sgn f * float_sgn g
      in if s = 0 then NaN else if 0 < s then PosInf else NegInf)"

text \<open>
  \<^verbatim>\<open>round(x, 2)\<close> on a float: the exact binary value is rounded to two decimals, ties to
  even, and the decimal result is converted back to the nearest float; infinities and
  NaN round to themselves.
\<close>

fun float_round2 :: "pyfloat \<Rightarrow> pyfloat" where
  "float_round2 (Finite q) = to_double (of_int (rhe (q * 100)) / 100)"
| "float_round2 f = f"

datatype pyval = PyInt int | PyFloat pyfloat

text \<open>
  The exceptions of the model. \<open>OtherException\<close> stands for any other subclass of
  \<^verbatim>\<open>Exception\<close>; \<open>CancelledError\<close> (\<^verbatim>\<open>asyncio.CancelledError\<close>) derives from
  \<^verbatim>\<open>BaseException\<close> only, so \<^verbatim>\<open>except Exception\<close> does not catch it.
\<close>

datatype exc = ConnectionError | TimeoutError | OverflowError | AttributeError
  | OtherException | CancelledError

definition is_Exception :: "exc \<Rightarrow> bool" where
  "is_Exception e = (e \<noteq> CancelledError)"

text \<open>
  Converting an \<^verbatim>\<open>int\<close> to \<^verbatim>\<open>float\<close> rounds to the nearest float and raises
  \<^verbatim>\<open>OverflowError\<close> (int too large to convert to float) beyond the float range.
\<close>

definition int_to_float :: "int \<Rightarrow> exc + pyfloat" where
  "int_to_float n = (case to_double (of_int n) of
       Finite r \<Rightarrow> Inr (Finite r)
     | _ \<Rightarrow> Inl OverflowError)"

text \<open>The operator \<^verbatim>\<open>*\<close> on numbers.\<close>

fun py_mul :: "pyval \<Rightarrow> pyval \<Rightarrow> exc + pyval" where
  "py_mul (PyInt a) (PyInt b) = Inr (PyInt (a * b))"
| "py_mul (PyFloat f) (PyFloat g) = Inr (PyFloat (float_mul f g))"
| "py_mul (PyInt a) (PyFloat g) =
     (case int_to_float a of Inl e \<Rightarrow> Inl e | Inr f \<Rightarrow> Inr (PyFloat (float_mul f g)))"
| "py_mul (PyFloat f) (PyInt b) =
     (case int_to_float b of Inl e \<Rightarrow> Inl e | Inr g \<Rightarrow> Inr (PyFloat (float_mul f g)))"

text \<open>\<^verbatim>\<open>round(v, 2)\<close>: an \<^verbatim>\<open>int\<close> is returned as it is.\<close>

fun py_round2 :: "pyval \<Rightarrow> pyval" where
  "py_round2 (PyInt n) = PyInt n"
| "py_round2 (PyFloat f) = PyFloat (float_round2 f)"

section \<open>Constants of \<^verbatim>\<open>const.py\<close>\<close>

text \<open>
  \<^verbatim>\<open>sensor.py\<close> imports \<^verbatim>\<open>MASS_KILOGRAMS\<close>, \<^verbatim>\<open>MASS_POUNDS\<close> and \<^verbatim>\<open>KG_TO_LBS\<close> from
  \<^verbatim>\<open>const.py\<close>. The two unit strings are parameters of the model.
\<close>

record mass_units =
  MASS_KILOGRAMS :: string
  MASS_POUNDS :: string

text \<open>
  Modelled from the spec: \<^verbatim>\<open>KG_TO_LBS\<close> of \<^verbatim>\<open>const.py\<close>, the factor of the
  kilograms-to-pounds row, \<open>2.2046226218\<close>, as the float that this literal denotes.
\<close>

definition KG_TO_LBS :: pyval where
  "KG_TO_LBS = PyFloat (to_double (22046226218 / 10000000000))"

section \<open>The sensor\<close>

text \<open>
  The fields that \<^verbatim>\<open>RenphoSensor.__init__\<close> assigns (\<open>self_name\<close> is \<^verbatim>\<open>self._name\<close>).
  \<open>self_state = None\<close> is Python's \<^verbatim>\<open>None\<close>; \<open>self_timestamp = None\<close> says that the
  attribute \<^verbatim>\<open>_timestamp\<close> does not exist on the object. A unit is a string or \<^verbatim>\<open>None\<close>.
\<close>

record sensor =
  self_metric :: string
  self_id :: string
  self_name :: string
  self_unit :: "string option"
  self_category :: string
  self_label :: string
  self_unit_of_measurement :: "string option"
  self_state :: "pyval option"
  self_timestamp :: "string option"

text \<open>
  \<^verbatim>\<open>self.coordinator\<close> refers to a shared object that changes over time. A read of the
  sensor is given the coordinator as it is at that moment: the outcome of
  \<^verbatim>\<open>get_specific_metric(metric_type, metric, user_id)\<close>, an exception or a value or \<^verbatim>\<open>None\<close>,
  and the flag \<^verbatim>\<open>last_update_success\<close>.
\<close>

record coordinator =
  get_specific_metric :: "string \<Rightarrow> string \<Rightarrow> string option \<Rightarrow> exc + pyval option"
  last_update_success :: bool

text \<open>An entry of \<^verbatim>\<open>sensor_configurations\<close>: the keyword arguments of the constructor.\<close>

record sensor_config =
  cfg_id :: string
  cfg_name :: string
  cfg_unit :: "string option"
  cfg_category :: string
  cfg_label :: string
  cfg_metric :: string

definition RenphoSensor :: "string \<Rightarrow> string \<Rightarrow> string option \<Rightarrow> string \<Rightarrow> string \<Rightarrow> string
    \<Rightarrow> string option \<Rightarrow> sensor" where
  "RenphoSensor ident nm un cat lab met uom =
     \<lparr>self_metric = met, self_id = ident, self_name = ''Renpho '' @ nm, self_unit = un,
      self_category = cat, self_label = lab, self_unit_of_measurement = uom,
      self_state = None, self_timestamp = None\<rparr>"

definition sensors_list :: "string option \<Rightarrow> sensor_config list \<Rightarrow> sensor list" where
  "sensors_list uom sensor_configurations =
     map (\<lambda>cfg. RenphoSensor (cfg_id cfg) (cfg_name cfg) (cfg_unit cfg) (cfg_category cfg)
                  (cfg_label cfg) (cfg_metric cfg) uom) sensor_configurations"

definition should_poll :: "sensor \<Rightarrow> bool" where
  "should_poll s = False"

definition available :: "coordinator \<Rightarrow> sensor \<Rightarrow> bool" where
  "available co s = last_update_success co"

text \<open>The attribute dictionaries; reading \<^verbatim>\<open>self._timestamp\<close> raises when it was never set.\<close>

definition device_state_attributes :: "sensor \<Rightarrow> exc + (string \<times> string) list" where
  "device_state_attributes s = (case self_timestamp s of
       None \<Rightarrow> Inl AttributeError
     | Some t \<Rightarrow> Inr [(''timestamp'', t), (''category'', self_category s),
                      (''label'', self_label s)])"

definition extra_state_attributes :: "sensor \<Rightarrow> exc + (string \<times> string) list" where
  "extra_state_attributes s = (case self_timestamp s of
       None \<Rightarrow> Inl AttributeError
     | Some t \<Rightarrow> Inr [(''timestamp'', t), (''category'', self_category s),
                      (''label'', self_label s)])"

definition name :: "sensor \<Rightarrow> string" where
  "name s = self_name s"

definition category :: "sensor \<Rightarrow> string" where
  "category s = self_category s"

definition label :: "sensor \<Rightarrow> string" where
  "label s = self_label s"

text \<open>Truth value of a string used as a condition: the empty string is false.\<close>

definition truthy :: "string \<Rightarrow> bool" where
  "truthy x = (x \<noteq> [])"

text \<open>
  The last condition of the chain is
  \<^verbatim>\<open>A == KG or MASS_POUNDS and B != KG or MASS_POUNDS\<close>, which Python reads as
  \<^verbatim>\<open>(A == KG) or (MASS_POUNDS and (B != KG)) or MASS_POUNDS\<close>. A chain that takes no branch
  returns \<^verbatim>\<open>None\<close>.
\<close>

definition unit_of_measurement :: "mass_units \<Rightarrow> sensor \<Rightarrow> string option" where
  "unit_of_measurement c s =
     (if self_unit_of_measurement s = Some (MASS_POUNDS c) \<and> self_unit s = Some (MASS_KILOGRAMS c)
      then Some (MASS_POUNDS c)
      else if self_unit_of_measurement s = Some (MASS_KILOGRAMS c)
              \<and> self_unit s = Some (MASS_KILOGRAMS c)
      then Some (MASS_KILOGRAMS c)
      else if self_unit_of_measurement s = Some (MASS_POUNDS c)
              \<and> self_unit s = Some (MASS_POUNDS c)
      then Some (MASS_POUNDS c)
      else if self_unit_of_measurement s = Some (MASS_KILOGRAMS c)
              \<or> (truthy (MASS_POUNDS c) \<and> self_unit s \<noteq> Some (MASS_KILOGRAMS c))
              \<or> truthy (MASS_POUNDS c)
      then self_unit s
      else None)"

definition unit :: "mass_units \<Rightarrow> sensor \<Rightarrow> string option" where
  "unit c s =
     (if self_unit_of_measurement s = Some (MASS_POUNDS c) \<and> self_unit s = Some (MASS_KILOGRAMS c)
      then Some (MASS_POUNDS c)
      else if self_unit_of_measurement s = Some (MASS_KILOGRAMS c)
              \<and> self_unit s = Some (MASS_KILOGRAMS c)
      then Some (MASS_KILOGRAMS c)
      else if self_unit_of_measurement s = Some (MASS_POUNDS c)
              \<and> self_unit s = Some (MASS_POUNDS c)
      then Some (MASS_POUNDS c)
      else if self_unit_of_measurement s = Some (MASS_KILOGRAMS c)
              \<or> (truthy (MASS_POUNDS c) \<and> self_unit s \<noteq> Some (MASS_KILOGRAMS c))
              \<or> truthy (MASS_POUNDS c)
      then self_unit s
      else None)"

text \<open>
  The value that \<^verbatim>\<open>state\<close> assigns to \<^verbatim>\<open>self._state\<close> for a metric value that is not
  \<^verbatim>\<open>None\<close>: the three branches of lines 192 to 197. Only the first can raise.
\<close>

definition state_value :: "mass_units \<Rightarrow> sensor \<Rightarrow> pyval \<Rightarrow> exc + pyval" where
  "state_value c s metric_value =
     (if self_unit_of_measurement s = Some (MASS_POUNDS c) \<and> self_unit s = Some (MASS_KILOGRAMS c)
      then (case py_mul metric_value KG_TO_LBS of
              Inl e \<Rightarrow> Inl e
            | Inr p \<Rightarrow> Inr (py_round2 p))
      else if self_unit_of_measurement s = Some (MASS_KILOGRAMS c)
              \<and> self_unit s = Some (MASS_KILOGRAMS c)
      then Inr (py_round2 metric_value)
      else Inr metric_value)"

datatype log_level = INFO | ERROR | CRITICAL

text \<open>
  The two \<^verbatim>\<open>except\<close> clauses of \<^verbatim>\<open>state\<close>: they log and leave the object as it is; an
  exception that is not an \<^verbatim>\<open>Exception\<close> propagates.
\<close>

definition state_except :: "exc \<Rightarrow> sensor \<Rightarrow> exc + (pyval option \<times> sensor \<times> log_level list)" where
  "state_except e s =
     (if e = ConnectionError \<or> e = TimeoutError then Inr (None, s, [ERROR])
      else if is_Exception e then Inr (None, s, [CRITICAL])
      else Inl e)"

text \<open>
  The coroutine of the property \<^verbatim>\<open>state\<close>, run to its end: \<open>now\<close> is the text that
  \<^verbatim>\<open>datetime.now().strftime(...)\<close> gives at the read. The result is an exception that
  reaches the caller, or the value returned (the body has no \<^verbatim>\<open>return\<close>, so \<^verbatim>\<open>None\<close>), the
  object after the read and the levels of the log records written.
\<close>

definition state :: "mass_units \<Rightarrow> coordinator \<Rightarrow> string \<Rightarrow> sensor
    \<Rightarrow> exc + (pyval option \<times> sensor \<times> log_level list)" where
  "state c co now s =
     (case get_specific_metric co (self_metric s) (self_id s) None of
        Inl e \<Rightarrow> state_except e s
      | Inr None \<Rightarrow> Inr (None, s\<lparr>self_state := None\<rparr>, [])
      | Inr (Some metric_value) \<Rightarrow>
          (case state_value c s metric_value of
             Inl e \<Rightarrow> state_except e s
           | Inr v \<Rightarrow> Inr (None, s\<lparr>self_state := Some v, self_timestamp := Some now\<rparr>, [INFO])))"

text \<open>The object after a read, whether the read returned or raised.\<close>

definition after_state :: "mass_units \<Rightarrow> sensor \<Rightarrow> coordinator \<times> string \<Rightarrow> sensor" where
  "after_state c s r = (case state c (fst r) (snd r) s of
       Inl e \<Rightarrow> s
     | Inr (v, s', lg) \<Rightarrow> s')"

text \<open>The object after a sequence of reads, each with its coordinator and clock.\<close>

definition after_reads :: "mass_units \<Rightarrow> (coordinator \<times> string) list \<Rightarrow> sensor \<Rightarrow> sensor" where
  "after_reads c rs s = foldl (after_state c) s rs"

section \<open>The refresh of the coordinator\<close>

text \<open>
  Modelled from the spec: the coordinator of \<^verbatim>\<open>coordinator.py\<close>, which is not among the
  sources; \<^verbatim>\<open>sensor.py\<close> only calls it. The event loop is single-threaded and
  cooperative, so a run is a sequence of atomic steps: a caller requests a refresh, or the
  upstream fetch in flight completes. The first caller to request a refresh while none is in
  flight starts the fetch; later requesters attach to the same operation; its completion
  replaces the cache as a whole on success, keeps it on failure, sets the success flag and
  releases every waiter, each of which observes the cache as it then is.
\<close>

type_synonym snapshot = "string \<rightharpoonup> pyval"

record refresh_state =
  cache :: snapshot
  update_success :: bool
  in_flight :: bool
  waiters :: "nat list"
  fetch_calls :: nat
  observed :: "(nat \<times> snapshot) list"

text \<open>Modelled from the spec: \<^verbatim>\<open>request_refresh()\<close>, called by the caller \<open>k\<close>.\<close>

definition request_refresh :: "nat \<Rightarrow> refresh_state \<Rightarrow> refresh_state" where
  "request_refresh k st =
     (if in_flight st then st\<lparr>waiters := waiters st @ [k]\<rparr>
      else st\<lparr>in_flight := True, waiters := [k], fetch_calls := fetch_calls st + 1\<rparr>)"

text \<open>
  Modelled from the spec: the end of the fetch in flight, with the new snapshot or, for a
  failed fetch, \<open>None\<close>.
\<close>

definition complete_fetch :: "snapshot option \<Rightarrow> refresh_state \<Rightarrow> refresh_state" where
  "complete_fetch result st =
     (if in_flight st
      then (let cache' = (case result of None \<Rightarrow> cache st | Some snap \<Rightarrow> snap)
            in st\<lparr>cache := cache', update_success := (result \<noteq> None), in_flight := False,
                  waiters := [], observed := observed st @ map (\<lambda>k. (k, cache')) (waiters st)\<rparr>)
      else st)"

text \<open>
  \<^verbatim>\<open>RenphoSensor.async_update_data\<close> (lines 213 to 215) awaits
  \<^verbatim>\<open>coordinator.async_request_refresh()\<close> and does nothing else.
\<close>

definition async_update_data :: "nat \<Rightarrow> refresh_state \<Rightarrow> refresh_state" where
  "async_update_data k st = request_refresh k st"

text \<open>The requests of the callers \<open>ks\<close>, one after the other.\<close>

definition requests :: "nat list \<Rightarrow> refresh_state \<Rightarrow> refresh_state" where
  "requests ks st = foldl (\<lambda>st k. async_update_data k st) st ks"

text \<open>An idle coordinator with a cache.\<close>

definition idle_coordinator :: "snapshot \<Rightarrow> refresh_state" where
  "idle_coordinator m = \<lparr>cache = m, update_success = True, in_flight = False, waiters = [],
     fetch_calls = 0, observed = []\<rparr>"

section \<open>Example objects\<close>

text \<open>
  Concrete objects at which the theorems below are evaluated: the two unit strings, a
  coordinator whose lookup has a fixed outcome, and a weight sensor with native unit
  kilograms.
\<close>

definition example_units :: mass_units where
  "example_units = \<lparr>MASS_KILOGRAMS = ''kg'', MASS_POUNDS = ''lb''\<rparr>"

definition stub_coordinator :: "exc + pyval option \<Rightarrow> coordinator" where
  "stub_coordinator r =
     \<lparr>get_specific_metric = (\<lambda>metric_type metric user_id. r), last_update_success = True\<rparr>"

definition weight_config :: sensor_config where
  "weight_config = \<lparr>cfg_id = ''weight'', cfg_name = ''Weight'', cfg_unit = Some ''kg'',
     cfg_category = ''Measurements'', cfg_label = ''Weight'', cfg_metric = ''weight''\<rparr>"

definition weight_sensor :: "string option \<Rightarrow> sensor" where
  "weight_sensor uom = RenphoSensor (cfg_id weight_config) (cfg_name weight_config)
     (cfg_unit weight_config) (cfg_category weight_config) (cfg_label weight_config)
     (cfg_metric weight_config) uom"

text \<open>A sensor whose native unit is pounds, read with the preference pounds.\<close>

definition pounds_sensor :: sensor where
  "pounds_sensor = RenphoSensor ''weight'' ''Weight'' (Some ''lb'') ''Measurements'' ''Weight''
     ''weight'' (Some ''lb'')"

section \<open>Properties\<close>

subsection \<open>Facts about the example objects\<close>

lemma weight_sensor_fields:
  "self_unit (weight_sensor uom) = Some ''kg''"
  "self_unit_of_measurement (weight_sensor uom) = uom"
  "self_state (weight_sensor uom) = None"
  "self_timestamp (weight_sensor uom) = None"
  "self_name (weight_sensor uom) = ''Renpho Weight''"
  by (simp_all add: weight_sensor_def RenphoSensor_def weight_config_def)

lemma pounds_sensor_fields:
  "self_unit pounds_sensor = Some ''lb''"
  "self_unit_of_measurement pounds_sensor = Some ''lb''"
  by (simp_all add: pounds_sensor_def RenphoSensor_def)

lemma example_units_fields:
  "MASS_KILOGRAMS example_units = ''kg''"
  "MASS_POUNDS example_units = ''lb''"
  by (simp_all add: example_units_def)

lemma stub_lookup: "get_specific_metric (stub_coordinator r) m i u = r"
  by (simp add: stub_coordinator_def)

subsection \<open>A read that finds a value\<close>

lemma state_found:
  assumes "get_specific_metric co (self_metric s) (self_id s) None = Inr (Some v)"
    and "state_value c s v = Inr w"
  shows "state c co now s
           = Inr (None, s\<lparr>self_state := Some w, self_timestamp := Some now\<rparr>, [INFO])"
  using assms by (simp add: state_def)

lemma state_found_raises:
  assumes "get_specific_metric co (self_metric s) (self_id s) None = Inr (Some v)"
    and "state_value c s v = Inl e"
  shows "state c co now s = state_except e s"
  using assms by (simp add: state_def)

lemma state_value_kg_lb:
  assumes "self_unit s = Some (MASS_KILOGRAMS c)"
    and "self_unit_of_measurement s = Some (MASS_POUNDS c)"
  shows "state_value c s v
           = (case py_mul v KG_TO_LBS of Inl e \<Rightarrow> Inl e | Inr p \<Rightarrow> Inr (py_round2 p))"
  using assms by (simp add: state_value_def)

lemma state_value_kg_kg:
  assumes "MASS_KILOGRAMS c \<noteq> MASS_POUNDS c"
    and "self_unit s = Some (MASS_KILOGRAMS c)"
    and "self_unit_of_measurement s = Some (MASS_KILOGRAMS c)"
  shows "state_value c s v = Inr (py_round2 v)"
  using assms by (simp add: state_value_def)

lemma state_value_lb_lb:
  assumes "MASS_KILOGRAMS c \<noteq> MASS_POUNDS c"
    and "self_unit s = Some (MASS_POUNDS c)"
  shows "state_value c s v = Inr v"
  using assms by (simp add: state_value_def)

lemma state_value_other:
  assumes "self_unit s \<noteq> Some (MASS_KILOGRAMS c)"
  shows "state_value c s v = Inr v"
  using assms by (simp add: state_value_def)

subsection \<open>Floats: an int beyond the float range, and the values of the examples\<close>

lemma bits_pow2: "bits (2 ^ n) = int n + 1"
proof (induction n)
  case 0
  show ?case by (simp add: bits.simps [of 1] bits.simps [of 0])
next
  case (Suc n)
  have "bits (2 ^ Suc n) = 1 + bits ((2 ^ Suc n) div 2)"
    by (subst bits.simps) simp
  with Suc show ?case by simp
qed

lemma ilog2_pow2: "ilog2 (2 ^ n) = int n"
proof -
  have "(2::rat) ^ n = of_int (2 ^ n)"
    by simp
  then have "quotient_of ((2::rat) ^ n) = (2 ^ n, 1)"
    using quotient_of_int [of "2 ^ n"] by (simp add: Rat.of_int_def)
  then show ?thesis
    by (simp add: ilog2_def bits_pow2 bits.simps [of 1] bits.simps [of 0] pow2_def)
qed

lemma rhe_of_int: "rhe (of_int k) = k"
  by (simp add: rhe_def)

lemma fl_round_pow2:
  assumes "52 \<le> n"
  shows "fl_round (2 ^ n) = 2 ^ n"
proof -
  have a: "\<bar>(2::rat) ^ n\<bar> = 2 ^ n"
    by simp
  have e: "max (ilog2 ((2::rat) ^ n) - 52) (- 1074) = int (n - 52)"
    using assms by (simp add: ilog2_pow2)
  have p: "pow2 (int (n - 52)) = 2 ^ (n - 52)"
    by (simp add: pow2_def)
  have q: "(2::rat) ^ n / 2 ^ (n - 52) = of_int (2 ^ 52)"
    using assms power_diff [of "2::rat" 52 n] power_diff [of "2::rat" "n - 52" n] by simp
  have m: "(2::rat) ^ 52 * 2 ^ (n - 52) = 2 ^ n"
    using assms power_add [of "2::rat" 52 "n - 52"] by simp
  have "fl_round (2 ^ n) = of_int (rhe ((2::rat) ^ n / 2 ^ (n - 52))) * 2 ^ (n - 52)"
    unfolding fl_round_def Let_def a e p by simp
  also have "\<dots> = of_int (2 ^ 52) * 2 ^ (n - 52)"
    unfolding q rhe_of_int ..
  also have "\<dots> = 2 ^ n"
    using m by simp
  finally show ?thesis .
qed

lemma to_double_pow2:
  assumes "1024 \<le> n"
  shows "to_double (2 ^ n) = PosInf"
proof -
  have f: "fl_round ((2::rat) ^ n) = 2 ^ n"
    using assms by (intro fl_round_pow2) simp
  have a: "\<bar>(2::rat) ^ n\<bar> = 2 ^ n"
    by simp
  show ?thesis
    unfolding to_double_def Let_def f a ilog2_pow2 using assms by simp
qed

text \<open>\<^verbatim>\<open>float(2 ** n)\<close> raises from \<open>n = 1024\<close> on.\<close>

lemma int_to_float_pow2:
  assumes "1024 \<le> n"
  shows "int_to_float (2 ^ n) = Inl OverflowError"
proof -
  have "to_double (of_int (2 ^ n)) = PosInf"
    using to_double_pow2 [OF assms] by simp
  then show ?thesis
    by (simp add: int_to_float_def)
qed

lemma py_mul_int_overflow: "py_mul (PyInt (2 ^ 1024)) KG_TO_LBS = Inl OverflowError"
  using int_to_float_pow2 [of 1024] by (simp add: KG_TO_LBS_def del: power_numeral)

text \<open>A float times the factor never raises.\<close>

lemma py_mul_float:
  "py_mul (PyFloat f) KG_TO_LBS
     = Inr (PyFloat (float_mul f (to_double (22046226218 / 10000000000))))"
  by (simp add: KG_TO_LBS_def)

text \<open>\<^verbatim>\<open>70.0 * 2.2046226218\<close> is the float \<open>154.323583526\<close>, and it rounds to \<open>154.32\<close>.\<close>

lemma mul_70:
  "py_mul (PyFloat (to_double 70)) KG_TO_LBS
     = Inr (PyFloat (Finite (678722298107591 / 4398046511104)))"
  by code_simp

text \<open>An int within the float range is converted and multiplied: \<^verbatim>\<open>70 * KG_TO_LBS\<close>.\<close>

lemma mul_int_70:
  "py_mul (PyInt 70) KG_TO_LBS = Inr (PyFloat (Finite (678722298107591 / 4398046511104)))"
  by code_simp

lemma round_mul_70:
  "py_round2 (PyFloat (Finite (678722298107591 / 4398046511104)))
     = PyFloat (to_double (15432 / 100))"
  by code_simp

text \<open>
  The literal \<^verbatim>\<open>70.005\<close> denotes a float just below \<open>70.005\<close>, so it rounds down to
  \<open>70.0\<close>, which is not the float \<open>70.01\<close>.
\<close>

lemma literal_70005:
  "to_double (70005 / 1000) = Finite (615770492019671 / 8796093022208)"
  by code_simp

lemma literal_70005_below: "(615770492019671 / 8796093022208 :: rat) < 70005 / 1000"
  by simp

lemma round_70005: "py_round2 (PyFloat (to_double (70005 / 1000))) = PyFloat (to_double 70)"
  by code_simp

lemma not_7001: "to_double 70 \<noteq> to_double (7001 / 100)"
  by code_simp

lemma round_70: "py_round2 (PyFloat (to_double 70)) = PyFloat (to_double 70)"
  by code_simp

subsection \<open>What a read changes\<close>

lemma state_returns_None:
  assumes "state c co now s = Inr (r, s', lg)"
  shows "r = None"
  using assms
  by (auto simp add: state_def state_except_def split: sum.splits option.splits if_splits)

text \<open>An exception that is not an \<^verbatim>\<open>Exception\<close> reaches the caller of the read.\<close>

lemma state_propagates:
  assumes "get_specific_metric co (self_metric s) (self_id s) None = Inl CancelledError"
  shows "state c co now s = Inl CancelledError"
  using assms by (simp add: state_def state_except_def is_Exception_def)

lemma after_state_fields:
  "self_name (after_state c s r) = self_name s"
  "self_category (after_state c s r) = self_category s"
  "self_label (after_state c s r) = self_label s"
  "self_metric (after_state c s r) = self_metric s"
  "self_id (after_state c s r) = self_id s"
  by (auto simp add: after_state_def state_def state_except_def
      split: sum.splits option.splits if_splits)

lemma after_reads_fields:
  "self_name (after_reads c rs s) = self_name s
   \<and> self_category (after_reads c rs s) = self_category s
   \<and> self_label (after_reads c rs s) = self_label s
   \<and> self_metric (after_reads c rs s) = self_metric s
   \<and> self_id (after_reads c rs s) = self_id s"
  unfolding after_reads_def
  by (induction rs arbitrary: s) (simp_all add: after_state_fields)

text \<open>Only a read whose lookup finds a value can touch \<^verbatim>\<open>_timestamp\<close>.\<close>

lemma after_state_timestamp:
  assumes "\<forall>v. get_specific_metric (fst r) (self_metric s) (self_id s) None \<noteq> Inr (Some v)"
  shows "self_timestamp (after_state c s r) = self_timestamp s"
  using assms
  by (auto simp add: after_state_def state_def state_except_def
      split: sum.splits option.splits if_splits)

lemma after_reads_timestamp:
  assumes "\<forall>r \<in> set rs. \<forall>v. get_specific_metric (fst r) (self_metric s) (self_id s) None
             \<noteq> Inr (Some v)"
  shows "self_timestamp (after_reads c rs s) = self_timestamp s"
  using assms
proof (induction rs arbitrary: s)
  case Nil
  show ?case by (simp add: after_reads_def)
next
  case (Cons r rs)
  have "self_timestamp (after_reads c rs (after_state c s r))
      = self_timestamp (after_state c s r)"
    using Cons.prems by (intro Cons.IH) (simp add: after_state_fields)
  also have "\<dots> = self_timestamp s"
    using Cons.prems by (intro after_state_timestamp) simp
  finally show ?case
    by (simp add: after_reads_def)
qed

subsection \<open>Requests while a fetch is in flight\<close>

lemma requests_in_flight:
  assumes "in_flight st"
  shows "requests ks st = st\<lparr>waiters := waiters st @ ks\<rparr>"
  using assms
proof (induction ks arbitrary: st)
  case Nil
  show ?case by (simp add: requests_def)
next
  case (Cons k ks)
  have "requests (k # ks) st = requests ks (st\<lparr>waiters := waiters st @ [k]\<rparr>)"
    using Cons.prems by (simp add: requests_def async_update_data_def request_refresh_def)
  also have "\<dots> = st\<lparr>waiters := waiters st @ [k]\<rparr>\<lparr>waiters := (waiters st @ [k]) @ ks\<rparr>"
    using Cons.prems Cons.IH [of "st\<lparr>waiters := waiters st @ [k]\<rparr>"] by simp
  finally show ?case by simp
qed

subsection \<open>The claims\<close>

text \<open>
  C9: the properties \<^verbatim>\<open>unit\<close> and \<^verbatim>\<open>unit_of_measurement\<close> return the same emitted unit
  for every display preference and every native unit.
\<close>

theorem unit_eq_unit_of_measurement: "unit c s = unit_of_measurement c s"
  by (simp add: unit_def unit_of_measurement_def)

text \<open>Both give pounds for the kilogram sensor read with the preference pounds.\<close>

theorem unit_eq_unit_of_measurement_witness:
  "unit example_units (weight_sensor (Some ''lb'')) = Some ''lb''
   \<and> unit_of_measurement example_units (weight_sensor (Some ''lb'')) = Some ''lb''"
  using unit_eq_unit_of_measurement [of example_units "weight_sensor (Some ''lb'')"]
  by (simp add: unit_of_measurement_def weight_sensor_fields example_units_fields)

text \<open>
  C1, as the code has it: with native unit kilograms and preference pounds, a read that
  finds a value \<open>v\<close> for which \<^verbatim>\<open>v * KG_TO_LBS\<close> is defined (every float, and every int
  within the float range) stores \<^verbatim>\<open>round(v * 2.2046226218, 2)\<close> as the state, with the read
  timestamp, and the emitted unit is pounds.
\<close>

theorem state_kg_to_lb:
  assumes "self_unit s = Some (MASS_KILOGRAMS c)"
    and "self_unit_of_measurement s = Some (MASS_POUNDS c)"
    and "get_specific_metric co (self_metric s) (self_id s) None = Inr (Some v)"
    and "py_mul v KG_TO_LBS = Inr p"
  shows "state c co now s =
           Inr (None, s\<lparr>self_state := Some (py_round2 p), self_timestamp := Some now\<rparr>, [INFO])
         \<and> unit_of_measurement c s = Some (MASS_POUNDS c)"
proof -
  have "state_value c s v = Inr (py_round2 p)"
    using assms(1,2,4) by (simp add: state_value_kg_lb)
  then show ?thesis
    using assms(1,2,3) by (simp add: state_found unit_of_measurement_def)
qed

text \<open>The instance of the spec: 70.0 kg is rendered as 154.32 lb.\<close>

theorem state_kg_to_lb_witness:
  "state example_units (stub_coordinator (Inr (Some (PyFloat (to_double 70)))))
       ''2024-05-01 07:30:00'' (weight_sensor (Some ''lb''))
     = Inr (None, (weight_sensor (Some ''lb''))
              \<lparr>self_state := Some (PyFloat (to_double (15432 / 100))),
               self_timestamp := Some ''2024-05-01 07:30:00''\<rparr>, [INFO])
   \<and> unit_of_measurement example_units (weight_sensor (Some ''lb'')) = Some ''lb''"
proof -
  let ?s = "weight_sensor (Some ''lb'')"
  let ?co = "stub_coordinator (Inr (Some (PyFloat (to_double 70))))"
  have u: "self_unit ?s = Some (MASS_KILOGRAMS example_units)"
    by (simp add: weight_sensor_fields example_units_fields)
  have p: "self_unit_of_measurement ?s = Some (MASS_POUNDS example_units)"
    by (simp add: weight_sensor_fields example_units_fields)
  have g: "get_specific_metric ?co (self_metric ?s) (self_id ?s) None
             = Inr (Some (PyFloat (to_double 70)))"
    by (simp add: stub_lookup)
  show ?thesis
    using state_kg_to_lb [OF u p g mul_70, of "''2024-05-01 07:30:00''"]
    unfolding round_mul_70 example_units_fields by simp
qed

text \<open>
  C1 as stated fails for an int beyond the float range: \<^verbatim>\<open>2 ** 1024 * KG_TO_LBS\<close> raises
  \<^verbatim>\<open>OverflowError\<close>, the read catches it, and the state stays as it was (here \<^verbatim>\<open>None\<close>).
\<close>

theorem state_kg_to_lb_counterexample:
  "py_mul (PyInt (2 ^ 1024)) KG_TO_LBS = Inl OverflowError
   \<and> state example_units (stub_coordinator (Inr (Some (PyInt (2 ^ 1024)))))
         ''2024-05-01 07:30:00'' (weight_sensor (Some ''lb''))
       = Inr (None, weight_sensor (Some ''lb''), [CRITICAL])
   \<and> self_state (weight_sensor (Some ''lb'')) = None"
proof -
  let ?s = "weight_sensor (Some ''lb'')"
  let ?co = "stub_coordinator (Inr (Some (PyInt (2 ^ 1024))))"
  have "state_value example_units ?s (PyInt (2 ^ 1024)) = Inl OverflowError"
    unfolding state_value_kg_lb [of ?s example_units, unfolded example_units_fields,
        OF weight_sensor_fields(1) weight_sensor_fields(2)] py_mul_int_overflow
    by simp
  then have "state example_units ?co ''2024-05-01 07:30:00'' ?s = state_except OverflowError ?s"
    by (intro state_found_raises) (simp_all only: stub_lookup)
  then have "state example_units ?co ''2024-05-01 07:30:00'' ?s = Inr (None, ?s, [CRITICAL])"
    by (simp add: state_except_def is_Exception_def del: power_numeral)
  with py_mul_int_overflow weight_sensor_fields(3) [of "Some ''lb''"] show ?thesis
    by (intro conjI)
qed

text \<open>
  C3, as the code has it: with native unit and preference both kilograms, a read that
  finds a value stores \<^verbatim>\<open>round(v, 2)\<close>, which rounds the stored binary value to two
  decimals, ties to even; the emitted unit is kilograms.
\<close>

theorem state_kg_to_kg:
  assumes "MASS_KILOGRAMS c \<noteq> MASS_POUNDS c"
    and "self_unit s = Some (MASS_KILOGRAMS c)"
    and "self_unit_of_measurement s = Some (MASS_KILOGRAMS c)"
    and "get_specific_metric co (self_metric s) (self_id s) None = Inr (Some v)"
  shows "state c co now s =
           Inr (None, s\<lparr>self_state := Some (py_round2 v), self_timestamp := Some now\<rparr>, [INFO])
         \<and> unit_of_measurement c s = Some (MASS_KILOGRAMS c)"
  using assms by (simp add: state_found state_value_kg_kg unit_of_measurement_def)

text \<open>The instance: the input 70.005 is rendered as 70.0.\<close>

theorem state_kg_to_kg_witness:
  "state example_units (stub_coordinator (Inr (Some (PyFloat (to_double (70005 / 1000))))))
       ''2024-05-01 07:30:00'' (weight_sensor (Some ''kg''))
     = Inr (None, (weight_sensor (Some ''kg''))
              \<lparr>self_state := Some (PyFloat (to_double 70)),
               self_timestamp := Some ''2024-05-01 07:30:00''\<rparr>, [INFO])
   \<and> unit_of_measurement example_units (weight_sensor (Some ''kg'')) = Some ''kg''"
proof -
  let ?s = "weight_sensor (Some ''kg'')"
  let ?co = "stub_coordinator (Inr (Some (PyFloat (to_double (70005 / 1000)))))"
  have d: "MASS_KILOGRAMS example_units \<noteq> MASS_POUNDS example_units"
    by (simp add: example_units_fields)
  have u: "self_unit ?s = Some (MASS_KILOGRAMS example_units)"
    by (simp add: weight_sensor_fields example_units_fields)
  have p: "self_unit_of_measurement ?s = Some (MASS_KILOGRAMS example_units)"
    by (simp add: weight_sensor_fields example_units_fields)
  have g: "get_specific_metric ?co (self_metric ?s) (self_id ?s) None
             = Inr (Some (PyFloat (to_double (70005 / 1000))))"
    by (simp only: stub_lookup)
  show ?thesis
    using state_kg_to_kg [OF d u p g, of "''2024-05-01 07:30:00''"]
    unfolding round_70005 example_units_fields .
qed

text \<open>
  C3 as stated fails at its own example: the input 70.005 is rendered as 70.0, not as
  70.01.
\<close>

theorem state_kg_to_kg_counterexample:
  "self_state (after_state example_units (weight_sensor (Some ''kg''))
       (stub_coordinator (Inr (Some (PyFloat (to_double (70005 / 1000))))),
        ''2024-05-01 07:30:00''))
     = Some (PyFloat (to_double 70))
   \<and> to_double 70 \<noteq> to_double (7001 / 100)"
proof -
  let ?s = "weight_sensor (Some ''kg'')"
  let ?v = "PyFloat (to_double (70005 / 1000))"
  let ?co = "stub_coordinator (Inr (Some ?v))"
  have "state_value example_units ?s ?v = Inr (py_round2 ?v)"
    by (rule state_value_kg_kg) (simp_all add: weight_sensor_fields example_units_fields)
  then have v: "state_value example_units ?s ?v = Inr (PyFloat (to_double 70))"
    unfolding round_70005 .
  have "state example_units ?co ''2024-05-01 07:30:00'' ?s
      = Inr (None, ?s\<lparr>self_state := Some (PyFloat (to_double 70)),
                        self_timestamp := Some ''2024-05-01 07:30:00''\<rparr>, [INFO])"
    by (rule state_found [OF _ v]) (simp only: stub_lookup)
  then have "self_state (after_state example_units ?s (?co, ''2024-05-01 07:30:00''))
      = Some (PyFloat (to_double 70))"
    unfolding after_state_def fst_conv snd_conv by simp
  with not_7001 show ?thesis
    by (intro conjI)
qed

text \<open>
  C4: with native unit and preference both pounds, and with a native unit that is
  neither kilograms nor pounds (a non-mass unit, or no unit at all), a read that finds a
  value stores it unchanged, the emitted unit is the native unit, and nothing is raised.
\<close>

theorem state_pass_through:
  assumes "MASS_KILOGRAMS c \<noteq> MASS_POUNDS c"
    and "truthy (MASS_POUNDS c)"
    and "self_unit s = Some (MASS_POUNDS c) \<and> self_unit_of_measurement s = Some (MASS_POUNDS c)
         \<or> self_unit s \<noteq> Some (MASS_KILOGRAMS c) \<and> self_unit s \<noteq> Some (MASS_POUNDS c)"
    and "get_specific_metric co (self_metric s) (self_id s) None = Inr (Some v)"
  shows "state c co now s =
           Inr (None, s\<lparr>self_state := Some v, self_timestamp := Some now\<rparr>, [INFO])
         \<and> unit_of_measurement c s = self_unit s
         \<and> unit_of_measurement c (s\<lparr>self_state := Some v, self_timestamp := Some now\<rparr>)
             = self_unit s"
proof -
  have "self_unit s \<noteq> Some (MASS_KILOGRAMS c)"
    using assms(1,3) by auto
  then have "state_value c s v = Inr v"
    by (rule state_value_other)
  then have "state c co now s
      = Inr (None, s\<lparr>self_state := Some v, self_timestamp := Some now\<rparr>, [INFO])"
    using assms(4) by (simp add: state_found)
  moreover have "unit_of_measurement c s = self_unit s"
    using assms(1,2,3) by (auto simp add: unit_of_measurement_def)
  moreover have "unit_of_measurement c (s\<lparr>self_state := Some v, self_timestamp := Some now\<rparr>)
      = unit_of_measurement c s"
    by (simp add: unit_of_measurement_def)
  ultimately show ?thesis
    by simp
qed

text \<open>The instance of the spec: 150.0 lb, read with the preference pounds, stays 150.0 lb.\<close>

theorem state_pass_through_witness:
  "state example_units (stub_coordinator (Inr (Some (PyFloat (to_double 150)))))
       ''2024-05-01 07:30:00'' pounds_sensor
     = Inr (None, pounds_sensor\<lparr>self_state := Some (PyFloat (to_double 150)),
                     self_timestamp := Some ''2024-05-01 07:30:00''\<rparr>, [INFO])
   \<and> unit_of_measurement example_units pounds_sensor = Some ''lb''"
proof -
  let ?co = "stub_coordinator (Inr (Some (PyFloat (to_double 150))))"
  have d: "MASS_KILOGRAMS example_units \<noteq> MASS_POUNDS example_units"
    by (simp add: example_units_fields)
  have t: "truthy (MASS_POUNDS example_units)"
    by (simp add: example_units_fields truthy_def)
  have u: "self_unit pounds_sensor = Some (MASS_POUNDS example_units)
        \<and> self_unit_of_measurement pounds_sensor = Some (MASS_POUNDS example_units)
      \<or> self_unit pounds_sensor \<noteq> Some (MASS_KILOGRAMS example_units)
        \<and> self_unit pounds_sensor \<noteq> Some (MASS_POUNDS example_units)"
    by (simp add: pounds_sensor_fields example_units_fields)
  have g: "get_specific_metric ?co (self_metric pounds_sensor) (self_id pounds_sensor) None
             = Inr (Some (PyFloat (to_double 150)))"
    by (simp only: stub_lookup)
  show ?thesis
    using state_pass_through [OF d t u g, of "''2024-05-01 07:30:00''"]
    by (simp add: pounds_sensor_fields)
qed

text \<open>
  C5: when the coordinator lookup raises an error (a \<^verbatim>\<open>ConnectionError\<close>, a
  \<^verbatim>\<open>TimeoutError\<close> or any other \<^verbatim>\<open>Exception\<close>), the read returns to its caller without
  raising and leaves the object, with its rendered state and timestamp, as it was.
\<close>

theorem state_catches_errors:
  assumes "get_specific_metric co (self_metric s) (self_id s) None = Inl e"
    and "is_Exception e"
  shows "state c co now s =
           Inr (None, s, [if e = ConnectionError \<or> e = TimeoutError then ERROR else CRITICAL])
         \<and> self_state (after_state c s (co, now)) = self_state s
         \<and> self_timestamp (after_state c s (co, now)) = self_timestamp s"
  using assms by (simp add: state_def state_except_def after_state_def)

theorem state_catches_errors_witness:
  "is_Exception ConnectionError
   \<and> state example_units (stub_coordinator (Inl ConnectionError)) ''2024-05-01 07:30:00''
         (weight_sensor (Some ''lb''))
       = Inr (None, weight_sensor (Some ''lb''), [ERROR])"
proof -
  let ?s = "weight_sensor (Some ''lb'')"
  let ?co = "stub_coordinator (Inl ConnectionError)"
  have g: "get_specific_metric ?co (self_metric ?s) (self_id ?s) None = Inl ConnectionError"
    by (simp only: stub_lookup)
  have x: "is_Exception ConnectionError"
    by (simp add: is_Exception_def)
  show ?thesis
    using state_catches_errors [OF g x, of example_units "''2024-05-01 07:30:00''"] x
    by simp
qed

text \<open>
  C7: a value that the rule has converted from kilograms to pounds is left as it is when
  the rule is applied again with native unit pounds and preference pounds.
\<close>

theorem reconcile_idempotent:
  assumes "MASS_KILOGRAMS c \<noteq> MASS_POUNDS c"
    and "self_unit s1 = Some (MASS_KILOGRAMS c)"
    and "self_unit_of_measurement s1 = Some (MASS_POUNDS c)"
    and "self_unit s2 = Some (MASS_POUNDS c)"
    and "self_unit_of_measurement s2 = Some (MASS_POUNDS c)"
    and "state_value c s1 v = Inr w"
  shows "state_value c s2 w = Inr w"
  using assms(1,4) by (rule state_value_lb_lb)

theorem reconcile_idempotent_witness:
  "state_value example_units (weight_sensor (Some ''lb'')) (PyFloat (to_double 70))
     = Inr (PyFloat (to_double (15432 / 100)))
   \<and> state_value example_units pounds_sensor (PyFloat (to_double (15432 / 100)))
     = Inr (PyFloat (to_double (15432 / 100)))"
proof -
  let ?s1 = "weight_sensor (Some ''lb'')"
  have d: "MASS_KILOGRAMS example_units \<noteq> MASS_POUNDS example_units"
    by (simp add: example_units_fields)
  have u1: "self_unit ?s1 = Some (MASS_KILOGRAMS example_units)"
    by (simp add: weight_sensor_fields example_units_fields)
  have p1: "self_unit_of_measurement ?s1 = Some (MASS_POUNDS example_units)"
    by (simp add: weight_sensor_fields example_units_fields)
  have u2: "self_unit pounds_sensor = Some (MASS_POUNDS example_units)"
    by (simp add: pounds_sensor_fields example_units_fields)
  have p2: "self_unit_of_measurement pounds_sensor = Some (MASS_POUNDS example_units)"
    by (simp add: pounds_sensor_fields example_units_fields)
  have v: "state_value example_units ?s1 (PyFloat (to_double 70))
      = Inr (PyFloat (to_double (15432 / 100)))"
    unfolding state_value_kg_lb [OF u1 p1] mul_70 sum.case round_mul_70 ..
  from v reconcile_idempotent [OF d u1 p1 u2 p2 v] show ?thesis
    by (intro conjI)
qed

text \<open>
  C2, at a concrete read: the coordinator has the value 70.0 for a kilogram sensor read
  with the preference kilograms. The read stores 70.0 as \<^verbatim>\<open>_state\<close> and records the
  timestamp, but the value it returns to its caller is \<^verbatim>\<open>None\<close>: the body of \<^verbatim>\<open>state\<close>
  has no \<^verbatim>\<open>return\<close>, although its docstring reads "Return the current state of the sensor".
\<close>

theorem state_returns_nothing:
  "state example_units (stub_coordinator (Inr (Some (PyFloat (to_double 70)))))
       ''2024-05-01 07:30:00'' (weight_sensor (Some ''kg''))
     = Inr (None, (weight_sensor (Some ''kg''))
              \<lparr>self_state := Some (PyFloat (to_double 70)),
               self_timestamp := Some ''2024-05-01 07:30:00''\<rparr>, [INFO])"
proof -
  let ?s = "weight_sensor (Some ''kg'')"
  let ?v = "PyFloat (to_double 70)"
  have "state_value example_units ?s ?v = Inr (py_round2 ?v)"
    by (rule state_value_kg_kg) (simp_all add: weight_sensor_fields example_units_fields)
  then have v: "state_value example_units ?s ?v = Inr ?v"
    unfolding round_70 .
  show ?thesis
    by (rule state_found [OF _ v]) (simp only: stub_lookup)
qed

text \<open>
  C6, as the code has it: after construction from a configuration entry and after any
  sequence of reads, the category and the label are those of the entry, and the display
  name is the entry's name with the prefix \<^verbatim>\<open>Renpho \<close>.
\<close>

theorem identity_fields:
  "category (after_reads c rs (RenphoSensor (cfg_id cfg) (cfg_name cfg) (cfg_unit cfg)
       (cfg_category cfg) (cfg_label cfg) (cfg_metric cfg) uom)) = cfg_category cfg
   \<and> label (after_reads c rs (RenphoSensor (cfg_id cfg) (cfg_name cfg) (cfg_unit cfg)
       (cfg_category cfg) (cfg_label cfg) (cfg_metric cfg) uom)) = cfg_label cfg
   \<and> name (after_reads c rs (RenphoSensor (cfg_id cfg) (cfg_name cfg) (cfg_unit cfg)
       (cfg_category cfg) (cfg_label cfg) (cfg_metric cfg) uom)) = ''Renpho '' @ cfg_name cfg"
  by (simp add: category_def label_def name_def after_reads_fields RenphoSensor_def)

text \<open>The weight sensor after a read that found a value and one that timed out.\<close>

theorem identity_fields_witness:
  "category (after_reads example_units
       [(stub_coordinator (Inr (Some (PyInt 70))), ''2024-05-01 07:30:00''),
        (stub_coordinator (Inl TimeoutError), ''2024-05-01 07:35:00'')]
       (weight_sensor (Some ''lb''))) = ''Measurements''
   \<and> label (after_reads example_units
       [(stub_coordinator (Inr (Some (PyInt 70))), ''2024-05-01 07:30:00''),
        (stub_coordinator (Inl TimeoutError), ''2024-05-01 07:35:00'')]
       (weight_sensor (Some ''lb''))) = ''Weight''
   \<and> name (after_reads example_units
       [(stub_coordinator (Inr (Some (PyInt 70))), ''2024-05-01 07:30:00''),
        (stub_coordinator (Inl TimeoutError), ''2024-05-01 07:35:00'')]
       (weight_sensor (Some ''lb''))) = ''Renpho Weight''"
  using identity_fields [of example_units
      "[(stub_coordinator (Inr (Some (PyInt 70))), ''2024-05-01 07:30:00''),
        (stub_coordinator (Inl TimeoutError), ''2024-05-01 07:35:00'')]"
      weight_config "Some ''lb''"]
  by (simp add: weight_sensor_def weight_config_def)

text \<open>
  C6 as stated fails for the display name: the sensor built from the entry named
  \<^verbatim>\<open>Weight\<close> is named \<^verbatim>\<open>Renpho Weight\<close>.
\<close>

theorem identity_fields_counterexample:
  "name (weight_sensor (Some ''kg'')) = ''Renpho Weight''
   \<and> cfg_name weight_config = ''Weight''
   \<and> name (weight_sensor (Some ''kg'')) \<noteq> cfg_name weight_config"
  by (simp add: name_def weight_sensor_fields weight_config_def)

text \<open>
  C10: the constructor does not create \<^verbatim>\<open>_timestamp\<close>. After any sequence of reads none of
  whose lookups found a value, reading \<^verbatim>\<open>extra_state_attributes\<close> or
  \<^verbatim>\<open>device_state_attributes\<close> raises \<^verbatim>\<open>AttributeError\<close>; and a read changes
  \<^verbatim>\<open>_timestamp\<close> only if its lookup found a value.
\<close>

theorem timestamp_unset:
  assumes "\<forall>r \<in> set rs. \<forall>v. get_specific_metric (fst r) met ident None \<noteq> Inr (Some v)"
  shows "extra_state_attributes
           (after_reads c rs (RenphoSensor ident nm un cat lab met uom)) = Inl AttributeError
       \<and> device_state_attributes
           (after_reads c rs (RenphoSensor ident nm un cat lab met uom)) = Inl AttributeError
       \<and> (\<forall>s co now. self_timestamp (after_state c s (co, now)) \<noteq> self_timestamp s
             \<longrightarrow> (\<exists>v. get_specific_metric co (self_metric s) (self_id s) None = Inr (Some v)))"
proof -
  let ?s = "RenphoSensor ident nm un cat lab met uom"
  have "self_timestamp (after_reads c rs ?s) = self_timestamp ?s"
    using assms by (intro after_reads_timestamp) (simp add: RenphoSensor_def)
  then have t: "self_timestamp (after_reads c rs ?s) = None"
    by (simp add: RenphoSensor_def)
  have "\<exists>v. get_specific_metric co (self_metric s) (self_id s) None = Inr (Some v)"
    if "self_timestamp (after_state c s (co, now)) \<noteq> self_timestamp s" for s co now
    using that after_state_timestamp [of "(co, now)" s c] by auto
  with t show ?thesis
    by (simp add: extra_state_attributes_def device_state_attributes_def)
qed

text \<open>
  A fresh weight sensor, read once while the metric is absent and once while the lookup
  times out: both attribute dictionaries still raise.
\<close>

theorem timestamp_unset_witness:
  "extra_state_attributes
     (after_reads example_units
        [(stub_coordinator (Inr None), ''2024-05-01 07:30:00''),
         (stub_coordinator (Inl TimeoutError), ''2024-05-01 07:35:00'')]
        (weight_sensor (Some ''kg''))) = Inl AttributeError
   \<and> device_state_attributes
     (after_reads example_units
        [(stub_coordinator (Inr None), ''2024-05-01 07:30:00''),
         (stub_coordinator (Inl TimeoutError), ''2024-05-01 07:35:00'')]
        (weight_sensor (Some ''kg''))) = Inl AttributeError"
  using timestamp_unset [of
      "[(stub_coordinator (Inr None), ''2024-05-01 07:30:00''),
        (stub_coordinator (Inl TimeoutError), ''2024-05-01 07:35:00'')]"
      "cfg_metric weight_config" "cfg_id weight_config" example_units
      "cfg_name weight_config" "cfg_unit weight_config" "cfg_category weight_config"
      "cfg_label weight_config" "Some ''kg''"]
  by (simp add: stub_lookup weight_sensor_def)

text \<open>
  C8, on the coordinator modelled from the spec: when a caller \<open>k\<close> requests a refresh of
  an idle coordinator and the callers \<open>ks\<close> request one while that fetch is in flight,
  exactly one upstream fetch is issued, before and after its completion, and on
  completion every one of the callers observes the same cache, the resulting one.
\<close>

theorem refresh_coalesces:
  assumes "\<not> in_flight st"
  shows "fetch_calls (complete_fetch result (requests ks (async_update_data k st)))
           = fetch_calls st + 1
       \<and> observed (complete_fetch result (requests ks (async_update_data k st)))
           = observed st @ map (\<lambda>j. (j, cache (complete_fetch result
                 (requests ks (async_update_data k st))))) (k # ks)
       \<and> fetch_calls (requests ks (async_update_data k st)) = fetch_calls st + 1
       \<and> in_flight (requests ks (async_update_data k st))"
proof -
  let ?st1 = "async_update_data k st"
  have s1: "?st1 = st\<lparr>in_flight := True, waiters := [k], fetch_calls := fetch_calls st + 1\<rparr>"
    using assms by (simp add: async_update_data_def request_refresh_def)
  then have "in_flight ?st1"
    by simp
  then have "requests ks ?st1 = ?st1\<lparr>waiters := waiters ?st1 @ ks\<rparr>"
    by (rule requests_in_flight)
  then have r: "requests ks ?st1
      = st\<lparr>in_flight := True, waiters := k # ks, fetch_calls := fetch_calls st + 1\<rparr>"
    unfolding s1 by simp
  show ?thesis
    unfolding r by (simp add: complete_fetch_def Let_def)
qed

text \<open>Three callers, one fetch that returns a weight: one call, one cache for all three.\<close>

theorem refresh_coalesces_witness:
  "fetch_calls (complete_fetch (Some [''weight'' \<mapsto> PyInt 70])
       (requests [2, 3] (async_update_data 1 (idle_coordinator Map.empty)))) = 1
   \<and> observed (complete_fetch (Some [''weight'' \<mapsto> PyInt 70])
       (requests [2, 3] (async_update_data 1 (idle_coordinator Map.empty))))
     = [(1, [''weight'' \<mapsto> PyInt 70]), (2, [''weight'' \<mapsto> PyInt 70]),
        (3, [''weight'' \<mapsto> PyInt 70])]"
proof -
  have i: "\<not> in_flight (idle_coordinator Map.empty)"
    by (simp add: idle_coordinator_def)
  have c: "cache (complete_fetch (Some [''weight'' \<mapsto> PyInt 70]) st) = [''weight'' \<mapsto> PyInt 70]"
    if "in_flight st" for st
    using that by (simp add: complete_fetch_def Let_def)
  show ?thesis
    using refresh_coalesces [OF i, of "Some [''weight'' \<mapsto> PyInt 70]" "[2, 3]" 1]
    by (simp add: c idle_coordinator_def)
qed

end
